theory Spec2Isabelle
  imports Complex_Main "HOL-Library.Word"
begin

unbundle bit_operations_syntax

section \<open>Kinect 3D video capture: shallow embedding of the calibration and streaming core\<close>

text \<open>
  The development follows the C++ sources.  Unsigned 32-bit quantities are \<open>32 word\<close>,
  depth pixels are \<open>16 word\<close>, raw file contents are lists of bytes.  Values of type
  \<^verbatim>\<open>float\<close> and \<^verbatim>\<open>double\<close> that are only stored, copied or serialised are kept as their
  bit patterns; where the code computes with them they are modelled by \<open>real\<close>.
\<close>

type_synonym byte = "8 word"
type_synonym u16 = "16 word"
type_synonym u32 = "32 word"
type_synonym u64 = "64 word"

subsection \<open>FrameBuffer (Kinect/FrameBuffer.h)\<close>

text \<open>
  A handle is \<^verbatim>\<open>{size, buffer, timeStamp}\<close>.  The payload pointer is an address, with
  \<open>0\<close> the null pointer.  The reference counters that sit in front of the payloads are
  kept in a store from payload addresses to counters; a freed payload has no entry.
\<close>

record FrameBuffer =
  sizeFB :: "u32 \<times> u32"
  buffer :: nat
  timeStamp :: real

type_synonym refstore = "nat \<rightharpoonup> nat"

definition FrameBuffer_invalid :: FrameBuffer where
  "FrameBuffer_invalid = \<lparr>sizeFB = (0, 0), buffer = 0, timeStamp = 0\<rparr>"

text \<open>\<^verbatim>\<open>BufferHeader::ref\<close>: \<^verbatim>\<open>refCount.preAdd(1)\<close>.\<close>

definition ref :: "refstore \<Rightarrow> nat \<Rightarrow> refstore" where
  "ref h a = (case h a of None \<Rightarrow> h | Some c \<Rightarrow> h(a \<mapsto> c + 1))"

text \<open>
  \<^verbatim>\<open>BufferHeader::unref\<close> followed by the caller's \<^verbatim>\<open>delete[]\<close> when the counter
  reaches zero.
\<close>

definition unref :: "refstore \<Rightarrow> nat \<Rightarrow> refstore" where
  "unref h a =
     (case h a of
        None \<Rightarrow> h
      | Some c \<Rightarrow> if c - 1 = 0 then h(a := None) else h(a \<mapsto> c - 1))"

text \<open>\<^verbatim>\<open>FrameBuffer::operator=\<close>; returns the store and the updated target handle.\<close>

definition assign :: "refstore \<Rightarrow> FrameBuffer \<Rightarrow> FrameBuffer \<Rightarrow> refstore \<times> FrameBuffer" where
  "assign h this source =
     (if buffer this \<noteq> buffer source then
        let h1 = (if buffer this \<noteq> 0 then unref h (buffer this) else h);
            this1 = this\<lparr>sizeFB := sizeFB source\<rparr>;
            this2 = this1\<lparr>buffer := buffer source\<rparr>;
            h2 = (if buffer this2 \<noteq> 0 then ref h1 (buffer this2) else h1);
            this3 = this2\<lparr>timeStamp := timeStamp source\<rparr>
        in (h2, this3)
      else (h, this))"

definition isValid :: "FrameBuffer \<Rightarrow> bool" where
  "isValid fb = (buffer fb \<noteq> 0)"

subsection \<open>Binary files and pipes (the part of IO::File the sources use)\<close>

text \<open>
  A file or pipe is the list of bytes still to be read, the list of bytes written so
  far, and the two byte-swapping flags of \<^verbatim>\<open>IO::File\<close>.  The host is little-endian:
  \<open>le_bytes\<close> is the memory image of a value, and a set swap flag reverses the bytes
  that go to or come from the medium.  A read beyond the end of the data raises.
\<close>

definition le_bytes :: "nat \<Rightarrow> 'a::len word \<Rightarrow> byte list" where
  "le_bytes n w = map (\<lambda>k. ucast (drop_bit (8 * k) w)) [0..<n]"

definition le_word :: "byte list \<Rightarrow> 'a::len word" where
  "le_word bytes = word_of_int (horner_sum uint (2 ^ 8) bytes)"

definition wire :: "bool \<Rightarrow> nat \<Rightarrow> 'a::len word \<Rightarrow> byte list" where
  "wire swap n w = (if swap then rev (le_bytes n w) else le_bytes n w)"

definition unwire :: "bool \<Rightarrow> byte list \<Rightarrow> 'a::len word" where
  "unwire swap bytes = le_word (if swap then rev bytes else bytes)"

datatype error = ReadError | UnrecognizedEndianness

record File =
  rd :: "byte list"
  wr :: "byte list"
  readSwap :: bool
  writeSwap :: bool

definition read_word :: "nat \<Rightarrow> File \<Rightarrow> error + ('a::len word \<times> File)" where
  "read_word n f =
     (if length (rd f) < n then Inl ReadError
      else Inr (unwire (readSwap f) (take n (rd f)), f\<lparr>rd := drop n (rd f)\<rparr>))"

definition write_word :: "nat \<Rightarrow> 'a::len word \<Rightarrow> File \<Rightarrow> File" where
  "write_word n w f = f\<lparr>wr := wr f @ wire (writeSwap f) n w\<rparr>"

definition read_u32 :: "File \<Rightarrow> error + (u32 \<times> File)" where
  "read_u32 = read_word 4"
definition read_u64 :: "File \<Rightarrow> error + (u64 \<times> File)" where
  "read_u64 = read_word 8"
definition write_u32 :: "u32 \<Rightarrow> File \<Rightarrow> File" where
  "write_u32 = write_word 4"
definition write_u64 :: "u64 \<Rightarrow> File \<Rightarrow> File" where
  "write_u64 = write_word 8"

definition bindE :: "'e + 'a \<Rightarrow> ('a \<Rightarrow> 'e + 'b) \<Rightarrow> 'e + 'b" where
  "bindE m k = (case m of Inl e \<Rightarrow> Inl e | Inr a \<Rightarrow> k a)"

subsection \<open>Depth correction objects and their file format (FrameSource.cpp)\<close>

text \<open>
  \<^verbatim>\<open>DepthCorrection\<close> holds the B-spline degree, the segment counts
  \<open>(numSegments[0], numSegments[1])\<close> and the row-major control point array.  The type
  parameter is the representation of \<^verbatim>\<open>float\<close>: the bit pattern (\<open>u32\<close>) for reading
  and writing, \<open>real\<close> for evaluation.
\<close>

record 'f PixelCorrection =
  scale :: 'f
  offset :: 'f

record 'f DepthCorrection =
  degree :: u32
  numSegments :: "u32 \<times> u32"
  controlPoints :: "'f PixelCorrection list"

text \<open>\<^verbatim>\<open>(numSegments[1]+degree)*(numSegments[0]+degree)\<close>, computed in \<^verbatim>\<open>unsigned int\<close>.\<close>

definition numControlPoints :: "u32 \<Rightarrow> u32 \<times> u32 \<Rightarrow> u32" where
  "numControlPoints deg segs = (snd segs + deg) * (fst segs + deg)"

text \<open>The file constructor \<^verbatim>\<open>DepthCorrection(IO::File&)\<close> and its control point loop.\<close>

fun read_controlPoints :: "nat \<Rightarrow> File \<Rightarrow> error + (u32 PixelCorrection list \<times> File)" where
  "read_controlPoints 0 f = Inr ([], f)"
| "read_controlPoints (Suc n) f =
     bindE (read_u32 f) (\<lambda>(s, f1).
     bindE (read_u32 f1) (\<lambda>(off, f2).
     bindE (read_controlPoints n f2) (\<lambda>(cps, f3).
       Inr (\<lparr>scale = s, offset = off\<rparr> # cps, f3))))"

definition DepthCorrection_read :: "File \<Rightarrow> error + (u32 DepthCorrection \<times> File)" where
  "DepthCorrection_read f =
     bindE (read_u32 f) (\<lambda>(deg, f1).
     bindE (read_u32 f1) (\<lambda>(seg0, f2).
     bindE (read_u32 f2) (\<lambda>(seg1, f3).
     bindE (read_controlPoints (unat (numControlPoints deg (seg0, seg1))) f3) (\<lambda>(cps, f4).
       Inr (\<lparr>degree = deg, numSegments = (seg0, seg1), controlPoints = cps\<rparr>, f4)))))"

text \<open>\<^verbatim>\<open>DepthCorrection::write\<close>.\<close>

definition DepthCorrection_write :: "u32 DepthCorrection \<Rightarrow> File \<Rightarrow> File" where
  "DepthCorrection_write dc f =
     (let f1 = write_u32 (degree dc) f;
          f2 = write_u32 (fst (numSegments dc)) f1;
          f3 = write_u32 (snd (numSegments dc)) f2
      in fold (\<lambda>i g. write_u32 (offset (controlPoints dc ! i))
                       (write_u32 (scale (controlPoints dc ! i)) g))
              [0..<unat (numControlPoints (degree dc) (numSegments dc))] f3)"

text \<open>
  Every constructor allocates exactly \<open>numControlPoints\<close> control points; the fields are
  private, so this holds for every object.
\<close>

definition DepthCorrection_inv :: "'f DepthCorrection \<Rightarrow> bool" where
  "DepthCorrection_inv dc =
     (length (controlPoints dc) = unat (numControlPoints (degree dc) (numSegments dc)))"

text \<open>
  The format as the specification words it: \<open>u32 degree; u32 segX; u32 segY\<close>, then the
  pairs \<open>(f32 scale, f32 offset)\<close> in array order.
\<close>

definition spec_DepthCorrection_layout :: "bool \<Rightarrow> u32 DepthCorrection \<Rightarrow> byte list" where
  "spec_DepthCorrection_layout sw dc =
     wire sw 4 (degree dc) @ wire sw 4 (fst (numSegments dc)) @ wire sw 4 (snd (numSegments dc))
     @ concat (map (\<lambda>c. wire sw 4 (scale c) @ wire sw 4 (offset c)) (controlPoints dc))"


subsection \<open>Lens distortion parameters (FrameSource.cpp)\<close>

text \<open>
  Modelled from the spec: the class \<^verbatim>\<open>Video::LensDistortion\<close> itself is not among the
  sources; its ten parameters are the center \<open>(cx, cy)\<close>, six radial coefficients and two
  tangential coefficients, and its parameter vector lists them in this order (the
  comments of \<^verbatim>\<open>readLensDistortion\<close> name the slots the same way).  The coefficients are
  kept as the bit patterns of the \<^verbatim>\<open>Float64\<close> values; pattern \<open>0\<close> is \<open>+0.0\<close>.
\<close>

record 'f LensDistortion =
  cx :: 'f
  cy :: 'f
  kappa0 :: 'f
  kappa1 :: 'f
  kappa2 :: 'f
  kappa3 :: 'f
  kappa4 :: 'f
  kappa5 :: 'f
  rho0 :: 'f
  rho1 :: 'f

definition setParameterVector :: "'f list \<Rightarrow> 'f LensDistortion" where
  "setParameterVector pv =
     \<lparr>cx = pv ! 0, cy = pv ! 1,
      kappa0 = pv ! 2, kappa1 = pv ! 3, kappa2 = pv ! 4,
      kappa3 = pv ! 5, kappa4 = pv ! 6, kappa5 = pv ! 7,
      rho0 = pv ! 8, rho1 = pv ! 9\<rparr>"

definition getParameterVector :: "'f LensDistortion \<Rightarrow> 'f list" where
  "getParameterVector ld =
     [cx ld, cy ld, kappa0 ld, kappa1 ld, kappa2 ld, kappa3 ld, kappa4 ld, kappa5 ld,
      rho0 ld, rho1 ld]"

text \<open>The loops \<^verbatim>\<open>for(i...) pv[k+i]=Scalar(file.read<Misc::Float64>())\<close>.\<close>

fun read_f64s :: "nat \<Rightarrow> File \<Rightarrow> error + (u64 list \<times> File)" where
  "read_f64s 0 f = Inr ([], f)"
| "read_f64s (Suc n) f =
     bindE (read_u64 f) (\<lambda>(v, f1).
     bindE (read_f64s n f1) (\<lambda>(vs, f2). Inr (v # vs, f2)))"

definition readLensDistortion :: "File \<Rightarrow> bool \<Rightarrow> error + (u64 LensDistortion \<times> File)" where
  "readLensDistortion file newFormat =
     bindE (read_f64s 2 file) (\<lambda>(pv01, f1).
     bindE (read_f64s 3 f1) (\<lambda>(pv234, f2).
     bindE (if newFormat then read_f64s 3 f2 else Inr (replicate 3 0, f2)) (\<lambda>(pv567, f3).
     bindE (read_f64s 2 f3) (\<lambda>(pv89, f4).
       Inr (setParameterVector (pv01 @ pv234 @ pv567 @ pv89), f4)))))"

definition writeLensDistortion :: "u64 LensDistortion \<Rightarrow> File \<Rightarrow> File" where
  "writeLensDistortion ld file =
     (let pv = getParameterVector ld
      in fold (\<lambda>i g. write_u64 (pv ! i) g) [0..<2 + 6 + 2] file)"

definition f64s_bytes :: "bool \<Rightarrow> u64 list \<Rightarrow> byte list" where
  "f64s_bytes sw vs = concat (map (wire sw 8) vs)"

subsection \<open>Multiplexed source: connection handshake (Kinect/MultiplexedFrameSource.cpp)\<close>

text \<open>
  The constructor up to and including the read of the number of sub-streams.  The result
  is the pipe as the constructor leaves it, and either the exception raised or the three
  values read.  The time stamp offset is kept as the bit pattern of the \<^verbatim>\<open>Float64\<close>.
\<close>

record Handshake =
  serverProtocolVersion :: u32
  timeStampOffset :: u64
  numStreams :: u32

definition MultiplexedFrameSource_handshake :: "File \<Rightarrow> File \<times> (error + Handshake)" where
  "MultiplexedFrameSource_handshake pipe0 =
     (let pipe1 = write_u32 0x12345678 pipe0;
          pipe2 = write_u32 1 pipe1
      in case read_u32 pipe2 of
           Inl e \<Rightarrow> (pipe2, Inl e)
         | Inr (endiannessFlag, pipe3) \<Rightarrow>
             if endiannessFlag \<noteq> 0x78563412 \<and> endiannessFlag \<noteq> 0x12345678
             then (pipe3, Inl UnrecognizedEndianness)
             else
               let pipe4 = (if endiannessFlag = 0x78563412 then pipe3\<lparr>readSwap := True\<rparr> else pipe3)
               in case read_u32 pipe4 of
                    Inl e \<Rightarrow> (pipe4, Inl e)
                  | Inr (version, pipe5) \<Rightarrow>
                      (case read_u64 pipe5 of
                         Inl e \<Rightarrow> (pipe5, Inl e)
                       | Inr (tso, pipe6) \<Rightarrow>
                           (case read_u32 pipe6 of
                              Inl e \<Rightarrow> (pipe6, Inl e)
                            | Inr (n, pipe7) \<Rightarrow>
                                (pipe7, Inr \<lparr>serverProtocolVersion = version,
                                             timeStampOffset = tso, numStreams = n\<rparr>))))"

text \<open>The server's endianness flag as the constructor reads it.\<close>

definition marker :: "File \<Rightarrow> u32" where
  "marker p = unwire (readSwap p) (take 4 (rd p))"

subsection \<open>Background capture and removal (CompressDepthFile.cpp)\<close>

text \<open>
  Depth pixels are \<^verbatim>\<open>unsigned short\<close>.  In \<^verbatim>\<open>*bfPtr>*dfPtr-2\<close> both operands are
  promoted to \<^verbatim>\<open>int\<close>, so the comparison is between integers and the right-hand side
  can be negative; the assignment \<^verbatim>\<open>*bfPtr=*dfPtr-2\<close> converts the integer back to 16
  bits.  The state of the main loop is the background frame and the number of frames
  still to capture; each input frame yields the frame handed to the writer.
\<close>

definition invalidDepth :: u16 where
  "invalidDepth = 0x07ff"

text \<open>One step of the loop that adds a depth frame to the background frame.\<close>

definition capture_pixel :: "u16 \<Rightarrow> u16 \<Rightarrow> u16" where
  "capture_pixel bf df = (if uint bf > uint df - 2 then word_of_int (uint df - 2) else bf)"

text \<open>One step of the loop that removes the background from a depth frame.\<close>

definition remove_pixel :: "u16 \<Rightarrow> u16 \<Rightarrow> u16" where
  "remove_pixel bf df = (if uint df \<ge> uint bf then invalidDepth else df)"

record CompressState =
  backgroundFrame :: "u16 list"
  numCaptureFrames :: u32

definition initial_state :: "nat \<Rightarrow> CompressState" where
  "initial_state volume = \<lparr>backgroundFrame = replicate volume invalidDepth, numCaptureFrames = 150\<rparr>"

definition process_frame :: "CompressState \<Rightarrow> u16 list \<Rightarrow> CompressState \<times> u16 list" where
  "process_frame st frame =
     (if numCaptureFrames st > 0
      then (st\<lparr>backgroundFrame := map2 capture_pixel (backgroundFrame st) frame,
                numCaptureFrames := numCaptureFrames st - 1\<rparr>, frame)
      else (st, map2 (\<lambda>bf df. remove_pixel bf df) (backgroundFrame st) frame))"

fun process_frames :: "CompressState \<Rightarrow> u16 list list \<Rightarrow> CompressState \<times> u16 list list" where
  "process_frames st [] = (st, [])"
| "process_frames st (frame # frames) =
     (let (st1, out) = process_frame st frame;
          (st2, outs) = process_frames st1 frames
      in (st2, out # outs))"

subsection \<open>Depth correction B-spline evaluation (FrameSource.cpp)\<close>

text \<open>
  Evaluation computes with \<^verbatim>\<open>float\<close>; here the arithmetic is that of the real numbers.
  An access outside an array (undefined behaviour in C++) is the value \<open>Inl OutOfBounds\<close>.
\<close>

datatype fault = OutOfBounds

text \<open>A loop whose body may fail: the first failure ends the loop.\<close>

fun foldE :: "('a \<Rightarrow> 's \<Rightarrow> 'e + 's) \<Rightarrow> 'a list \<Rightarrow> 's \<Rightarrow> 'e + 's" where
  "foldE f [] s = Inr s"
| "foldE f (x # xs) s = bindE (f x s) (foldE f xs)"

definition load :: "'a list \<Rightarrow> nat \<Rightarrow> fault + 'a" where
  "load a k = (if k < length a then Inr (a ! k) else Inl OutOfBounds)"

text \<open>\<^verbatim>\<open>DepthCorrection(unsigned int sDegree,const Size& sNumSegments)\<close>.\<close>

definition DepthCorrection_ctor :: "u32 \<Rightarrow> u32 \<times> u32 \<Rightarrow> real DepthCorrection" where
  "DepthCorrection_ctor sDegree sNumSegments =
     \<lparr>degree = sDegree, numSegments = sNumSegments,
      controlPoints = replicate (unat (numControlPoints sDegree sNumSegments))
                        \<lparr>scale = 1, offset = 0\<rparr>\<rparr>"


text \<open>
  The scratch arrays \<^verbatim>\<open>bsTemp[21]\<close> and \<^verbatim>\<open>bsTemp[16][16]\<close>.  A cell is addressed by its
  indices; an index at or beyond the declared length is outside the array.
\<close>

definition store1 :: "nat \<Rightarrow> (nat \<Rightarrow> 'a) \<Rightarrow> nat \<Rightarrow> 'a \<Rightarrow> fault + (nat \<Rightarrow> 'a)" where
  "store1 len t k v = (if k < len then Inr (t(k := v)) else Inl OutOfBounds)"

definition load1 :: "nat \<Rightarrow> (nat \<Rightarrow> 'a) \<Rightarrow> nat \<Rightarrow> fault + 'a" where
  "load1 len t k = (if k < len then Inr (t k) else Inl OutOfBounds)"

definition store2 :: "nat \<Rightarrow> (nat \<times> nat \<Rightarrow> 'a) \<Rightarrow> nat \<Rightarrow> nat \<Rightarrow> 'a \<Rightarrow> fault + (nat \<times> nat \<Rightarrow> 'a)" where
  "store2 len t i j v = (if i < len \<and> j < len then Inr (t((i, j) := v)) else Inl OutOfBounds)"

definition load2 :: "nat \<Rightarrow> (nat \<times> nat \<Rightarrow> 'a) \<Rightarrow> nat \<Rightarrow> nat \<Rightarrow> fault + 'a" where
  "load2 len t i j = (if i < len \<and> j < len then Inr (t (i, j)) else Inl OutOfBounds)"

text \<open>
  The helper \<^verbatim>\<open>bs(i,n,x)\<close>: Cox-deBoor recursion in the scratch array \<^verbatim>\<open>bsTemp[21]\<close>.
\<close>

definition bs :: "int \<Rightarrow> int \<Rightarrow> real \<Rightarrow> fault + real" where
  "bs i n x =
     (if x < real_of_int i \<or> x \<ge> real_of_int (i + n + 1) then Inr 0
      else
        bindE (foldE (\<lambda>j bsTemp.
                 store1 21 bsTemp (nat j)
                   (if x \<ge> real_of_int (i + j) \<and> x < real_of_int (i + j + 1) then 1 else 0))
               [0..n] (\<lambda>k. 0)) (\<lambda>bsTemp1.
        bindE (foldE (\<lambda>ni bsTemp.
                 foldE (\<lambda>j bsTemp.
                    bindE (load1 21 bsTemp (nat j)) (\<lambda>a.
                    bindE (load1 21 bsTemp (nat (j + 1))) (\<lambda>b.
                      store1 21 bsTemp (nat j)
                        (((x - real_of_int (i + j)) * a + (real_of_int (i + j + ni + 1) - x) * b)
                          / real_of_int ni))))
                  [0..n - ni] bsTemp)
               [1..n] bsTemp1) (\<lambda>bsTemp2.
        load1 21 bsTemp2 0)))"

text \<open>\<^verbatim>\<open>((float(p)+0.5f)*float(numSegments[i]))/float(frameSize[i])\<close>.\<close>

definition splinePos :: "int \<Rightarrow> u32 \<Rightarrow> u32 \<Rightarrow> real" where
  "splinePos p nseg fsize = ((real_of_int p + 1 / 2) * real (unat nseg)) / real (unat fsize)"





text \<open>
  The helper \<^verbatim>\<open>bspline\<close>: deBoor's algorithm in the scratch array \<^verbatim>\<open>bsTemp[16][16]\<close>,
  first copying \<open>(degree+1) \<times> (degree+1)\<close> control points, then alternating passes in x
  and y.
\<close>

definition blend :: "real \<Rightarrow> real PixelCorrection \<Rightarrow> real \<Rightarrow> real PixelCorrection \<Rightarrow> real PixelCorrection" where
  "blend w1 a w0 b = \<lparr>scale = w1 * scale a + w0 * scale b, offset = w1 * offset a + w0 * offset b\<rparr>"

definition bspline ::
  "u32 \<Rightarrow> u32 \<times> u32 \<Rightarrow> real PixelCorrection list \<Rightarrow> real \<Rightarrow> real \<Rightarrow> fault + real PixelCorrection" where
  "bspline deg nsegs cps x y =
     (let i0 = (word_of_int \<lfloor>y\<rfloor> :: u32);
          j0 = (word_of_int \<lfloor>x\<rfloor> :: u32)
      in
        bindE (foldE (\<lambda>i bsTemp.
                 foldE (\<lambda>j bsTemp.
                    bindE (load cps (unat ((i0 + of_nat i) * (fst nsegs + deg) + (j0 + of_nat j)))) (\<lambda>cp.
                      store2 16 bsTemp i j cp))
                  [0..<unat deg + 1] bsTemp)
               [0..<unat deg + 1] (\<lambda>k. \<lparr>scale = 0, offset = 0\<rparr>)) (\<lambda>bsTemp1.
        bindE (foldE (\<lambda>ni bsTemp.
                 let sd = unat deg - ni in
                 bindE (foldE (\<lambda>j bsTemp.
                          let w0 = (real (unat (j0 + of_nat j + 1)) - x) / real sd;
                              w1 = 1 - w0
                          in foldE (\<lambda>i bsTemp.
                               bindE (load2 16 bsTemp i (j + 1)) (\<lambda>a.
                               bindE (load2 16 bsTemp i j) (\<lambda>b.
                                 store2 16 bsTemp i j (blend w1 a w0 b))))
                             [0..<sd + 1] bsTemp)
                        [0..<sd] bsTemp) (\<lambda>bsTempX.
                 foldE (\<lambda>i bsTemp.
                          let w0 = (real (unat (i0 + of_nat i + 1)) - y) / real sd;
                              w1 = 1 - w0
                          in foldE (\<lambda>j bsTemp.
                               bindE (load2 16 bsTemp (i + 1) j) (\<lambda>a.
                               bindE (load2 16 bsTemp i j) (\<lambda>b.
                                 store2 16 bsTemp i j (blend w1 a w0 b))))
                             [0..<sd + 1] bsTemp)
                        [0..<sd] bsTempX))
               [0..<unat deg] bsTemp1) (\<lambda>bsTemp2.
        load2 16 bsTemp2 0 0)))"

text \<open>The dense table \<^verbatim>\<open>getPixelCorrection(frameSize)\<close>, row by row.\<close>

definition table_row ::
  "real DepthCorrection \<Rightarrow> u32 \<times> u32 \<Rightarrow> nat \<Rightarrow> real PixelCorrection list
   \<Rightarrow> fault + real PixelCorrection list" where
  "table_row dc frameSize y result =
     (let dy = splinePos (int y) (snd (numSegments dc)) (snd frameSize)
      in foldE (\<lambda>x result.
           let dx = splinePos (int x) (fst (numSegments dc)) (fst frameSize)
           in bindE (bspline (degree dc) (numSegments dc) (controlPoints dc) dx dy) (\<lambda>r.
                Inr (result @ [r])))
          [0..<unat (fst frameSize)] result)"

definition getPixelCorrection_table ::
  "real DepthCorrection \<Rightarrow> u32 \<times> u32 \<Rightarrow> fault + real PixelCorrection list" where
  "getPixelCorrection_table dc frameSize =
     foldE (table_row dc frameSize) [0..<unat (snd frameSize)] []"



subsection \<open>ProjectorBase (Kinect/ProjectorBase.cpp)\<close>






















subsection \<open>Multiplexed source: receiving thread (Kinect/MultiplexedFrameSource.cpp)\<close>

text \<open>
  The receiving thread reads, for every frame, the metaframe index, the frame identifier
  and the frame itself (decoded by the frame reader of the sub-stream).  An \<open>Event\<close> is one
  such frame as it comes off the pipe, together with the state of the streams at that
  moment: whether the stream object still exists, whether it is streaming, and which
  callbacks are installed (other threads change these under the stream locks).  The
  thread's output is the sequence of callback invocations.
\<close>

record StreamState =
  alive :: bool
  streaming :: bool
  hasColorStreamingCallback :: bool
  hasDepthStreamingCallback :: bool

record Event =
  metaFrameIndex :: u32
  frameId :: u32
  body :: FrameBuffer
  streams :: "StreamState list"


record Demux =
  currentMetaFrameIndex :: u32
  numMissingColorFrames :: u32
  numMissingDepthFrames :: u32
  frames :: "FrameBuffer list"



















subsection \<open>Tie point calibration (TiePointTool.cpp, CalibrateCameras.cpp)\<close>

text \<open>
  \<^verbatim>\<open>TiePointTool::calibrateCameras\<close> and the \<^verbatim>\<open>main\<close> function of CalibrateCameras run the
  same computation, on the tool's tie points and on the entries of a file respectively.
  Scalars are \<^verbatim>\<open>double\<close>, modelled by \<open>real\<close>.  A matrix is a function of its index pair.
  The dense matrix class is a library outside these sources: its \<^verbatim>\<open>jacobiIteration\<close>,
  which returns the matrix of eigenvectors (as columns) and the vector of eigenvalues, is a
  parameter, and its in-place product \<^verbatim>\<open>operator*=\<close> is the matrix product
  \<open>this \<leftarrow> this \<times> other\<close>.
\<close>

type_synonym Matrix = "nat \<times> nat \<Rightarrow> real"

record TiePointPair =
  cameraPoint :: "real \<times> real \<times> real"
  colorPoint :: "real \<times> real"

text \<open>The two linear equations \<^verbatim>\<open>eq[0]\<close> and \<^verbatim>\<open>eq[1]\<close> of a tie point.\<close>

definition equations :: "real \<times> real \<Rightarrow> TiePointPair \<Rightarrow> real list \<times> real list" where
  "equations colorFrameSize tp =
     (let s = fst (colorPoint tp) / fst colorFrameSize;
          t = snd (colorPoint tp) / snd colorFrameSize;
          (x, y, z) = cameraPoint tp
      in ([x, y, z, 1, 0, 0, 0, 0, - s * x, - s * y, - s * z, - s],
          [0, 0, 0, 0, x, y, z, 1, - t * x, - t * y, - t * z, - t]))"

text \<open>The loops \<^verbatim>\<open>a(i,j)+=eq[row][i]*eq[row][j]\<close> for one row.\<close>

definition add_equation :: "real list \<Rightarrow> Matrix \<Rightarrow> Matrix" where
  "add_equation eq a =
     fold (\<lambda>i a. fold (\<lambda>j a. a((i, j) := a (i, j) + eq ! i * eq ! j)) [0..<12] a) [0..<12] a"

definition enter_tie_point :: "real \<times> real \<Rightarrow> TiePointPair \<Rightarrow> Matrix \<Rightarrow> Matrix" where
  "enter_tie_point colorFrameSize tp a =
     (let (eq0, eq1) = equations colorFrameSize tp
      in add_equation eq1 (add_equation eq0 a))"

definition linear_system :: "real \<times> real \<Rightarrow> TiePointPair list \<Rightarrow> Matrix" where
  "linear_system colorFrameSize tiePoints = fold (enter_tie_point colorFrameSize) tiePoints (\<lambda>ij. 0)"

text \<open>The search for the eigenvalue of smallest magnitude.\<close>

definition smallest_eigenvalue_index :: "(nat \<Rightarrow> real) \<Rightarrow> nat" where
  "smallest_eigenvalue_index e =
     fst (fold (\<lambda>i (minEIndex, minE). if minE > \<bar>e i\<bar> then (i, \<bar>e i\<bar>) else (minEIndex, minE))
            [1..<12] (0, \<bar>e 0\<bar>))"

text \<open>The normalized homography, and its extension to a 4 \<times> 4 matrix.\<close>

definition homography :: "Matrix \<Rightarrow> nat \<Rightarrow> Matrix" where
  "homography q minEIndex = (\<lambda>(i, j). q (i * 4 + j, minEIndex) / q (11, minEIndex))"

definition extend_homography :: "Matrix \<Rightarrow> Matrix" where
  "extend_homography hom =
     (\<lambda>(i, j). if i < 2 then hom (i, j)
               else if i = 2 then (if j = 2 then 1 else 0)
               else hom (2, j))"

definition matrix_product :: "nat \<Rightarrow> Matrix \<Rightarrow> Matrix \<Rightarrow> Matrix" where
  "matrix_product n a b = (\<lambda>(i, j). \<Sum>k \<leftarrow> [0..<n]. a (i, k) * b (k, j))"

text \<open>The values written to the intrinsic parameter file, row by row.\<close>

definition row_major :: "nat \<Rightarrow> nat \<Rightarrow> Matrix \<Rightarrow> real list" where
  "row_major rows cols a = concat (map (\<lambda>i. map (\<lambda>j. a (i, j)) [0..<cols]) [0..<rows])"

definition calibrateCameras ::
  "(Matrix \<Rightarrow> Matrix \<times> (nat \<Rightarrow> real)) \<Rightarrow> real \<times> real \<Rightarrow> Matrix \<Rightarrow> TiePointPair list \<Rightarrow> real list" where
  "calibrateCameras jacobiIteration colorFrameSize depthProjectionM tiePoints =
     (let a = linear_system colorFrameSize tiePoints;
          (q, e) = jacobiIteration a;
          minEIndex = smallest_eigenvalue_index e;
          hom = homography q minEIndex;
          colorProjectionM = matrix_product 4 (extend_homography hom) depthProjectionM
      in row_major 4 4 colorProjectionM)"

text \<open>
  The solver in the words of the specification: the two rows of a tie point, the normal
  matrix as the sum of \<open>row\<^sup>T row\<close> over all rows, and the persisted color projection
  built from eigenvector column \<open>k\<close> divided by its element 11 and multiplied from the
  right by the depth projection.
\<close>

definition spec_row_u :: "real \<times> real \<Rightarrow> TiePointPair \<Rightarrow> nat \<Rightarrow> real" where
  "spec_row_u fsize tp =
     (let (X, Y, Z) = cameraPoint tp; s = fst (colorPoint tp) / fst fsize
      in (!) [X, Y, Z, 1, 0, 0, 0, 0, - s * X, - s * Y, - s * Z, - s])"

definition spec_row_v :: "real \<times> real \<Rightarrow> TiePointPair \<Rightarrow> nat \<Rightarrow> real" where
  "spec_row_v fsize tp =
     (let (X, Y, Z) = cameraPoint tp; t = snd (colorPoint tp) / snd fsize
      in (!) [0, 0, 0, 0, X, Y, Z, 1, - t * X, - t * Y, - t * Z, - t])"

definition spec_normal_matrix :: "real \<times> real \<Rightarrow> TiePointPair list \<Rightarrow> Matrix" where
  "spec_normal_matrix fsize tps =
     (\<lambda>(i, j). \<Sum>tp \<leftarrow> tps. spec_row_u fsize tp i * spec_row_u fsize tp j
                           + spec_row_v fsize tp i * spec_row_v fsize tp j)"

definition spec_color_projection :: "Matrix \<Rightarrow> nat \<Rightarrow> Matrix \<Rightarrow> Matrix" where
  "spec_color_projection q k depthProjectionM =
     (\<lambda>(i, j). \<Sum>l \<leftarrow> [0..<4].
        (if i = 0 \<or> i = 1 then q (4 * i + l, k) / q (11, k)
         else if i = 2 then (if l = 2 then 1 else 0)
         else q (8 + l, k) / q (11, k)) * depthProjectionM (l, j))"

text \<open>One step of the search loop, and what the search has established after \<open>n\<close> entries.\<close>

definition min_step :: "(nat \<Rightarrow> real) \<Rightarrow> nat \<Rightarrow> nat \<times> real \<Rightarrow> nat \<times> real" where
  "min_step e = (\<lambda>i (minEIndex, minE). if minE > \<bar>e i\<bar> then (i, \<bar>e i\<bar>) else (minEIndex, minE))"

definition min_found :: "(nat \<Rightarrow> real) \<Rightarrow> nat \<Rightarrow> nat \<times> real \<Rightarrow> bool" where
  "min_found e n kv =
     (snd kv = \<bar>e (fst kv)\<bar> \<and> fst kv < n \<and> (\<forall>i<n. \<bar>e (fst kv)\<bar> \<le> \<bar>e i\<bar>)
      \<and> (\<forall>i. i < fst kv \<longrightarrow> \<bar>e (fst kv)\<bar> < \<bar>e i\<bar>))"

text \<open>Concrete values used in the examples below.\<close>

definition ld_example :: "u64 LensDistortion" where
  "ld_example = setParameterVector [1, 2, 3, 4, 5, 6, 7, 8, 9, 10]"

definition empty_file :: File where
  "empty_file = \<lparr>rd = [], wr = [], readSwap = False, writeSwap = False\<rparr>"


definition dc_example :: "u32 DepthCorrection" where
  "dc_example = \<lparr>degree = 1, numSegments = (1, 1),
     controlPoints = [\<lparr>scale = 0x3F800000, offset = 0\<rparr>, \<lparr>scale = 0x3F800000, offset = 1\<rparr>,
                      \<lparr>scale = 0x3F800000, offset = 2\<rparr>, \<lparr>scale = 0x3F800000, offset = 3\<rparr>]\<rparr>"

definition big_endian_server :: "byte list" where
  "big_endian_server =
     [0x12, 0x34, 0x56, 0x78] @ [0, 0, 0, 1] @ [0x3F, 0xF0, 0, 0, 0, 0, 0, 0] @ [0, 0, 0, 2]
     @ [0xAA]"












definition tie_point_example :: TiePointPair where
  "tie_point_example = \<lparr>cameraPoint = (100, 0, 1000), colorPoint = (384, 240)\<rparr>"

definition eigenvectors_example :: Matrix where
  "eigenvectors_example = (\<lambda>(i, j). real (i + 1))"

definition eigenvalues_example :: "nat \<Rightarrow> real" where
  "eigenvalues_example = (\<lambda>i. real (12 - i))"

definition jacobi_example :: "Matrix \<Rightarrow> Matrix \<times> (nat \<Rightarrow> real)" where
  "jacobi_example a = (eigenvectors_example, eigenvalues_example)"

definition identity_example :: Matrix where
  "identity_example = (\<lambda>(i, j). if i = j then 1 else 0)"


section \<open>Properties\<close>

subsection \<open>Byte encodings and the depth correction file format\<close>

lemma bit_le_word:
  "bit (le_word bytes :: 'a::len word) n \<longleftrightarrow>
     n < LENGTH('a) \<and> n div 8 < length bytes \<and> bit (bytes ! (n div 8)) (n mod 8)"
  using bit_horner_sum_uint_exp_iff [where ?'a = 8, of bytes n]
  by (simp add: le_word_def bit_word_of_int_iff)

lemma length_le_bytes [simp]: "length (le_bytes n w) = n"
  by (simp add: le_bytes_def)

lemma le_word_le_bytes:
  "LENGTH('a) \<le> 8 * n \<Longrightarrow> le_word (le_bytes n w) = (w :: 'a::len word)"
  apply (rule bit_word_eqI)
  apply (simp add: bit_le_word)
  apply (auto simp: le_bytes_def bit_ucast_iff bit_drop_bit_eq)
  done

lemma le_bytes_le_word:
  "length bytes = n \<Longrightarrow> 8 * n \<le> LENGTH('a) \<Longrightarrow> le_bytes n (le_word bytes :: 'a::len word) = bytes"
  apply (rule nth_equalityI)
   apply simp
  apply (simp add: le_bytes_def)
  apply (rule bit_word_eqI)
  apply (auto simp: bit_ucast_iff bit_drop_bit_eq bit_le_word)
  done

lemma length_wire [simp]: "length (wire sw n w) = n"
  by (simp add: wire_def)

lemma unwire_wire:
  "LENGTH('a) \<le> 8 * n \<Longrightarrow> unwire sw (wire sw n w) = (w :: 'a::len word)"
  by (simp add: unwire_def wire_def le_word_le_bytes)

lemma wire_unwire:
  "length bytes = n \<Longrightarrow> 8 * n \<le> LENGTH('a) \<Longrightarrow> wire sw n (unwire sw bytes :: 'a::len word) = bytes"
  by (simp add: unwire_def wire_def le_bytes_le_word)

lemma read_u32_wire:
  "rd f = wire (readSwap f) 4 w @ rest \<Longrightarrow> read_u32 f = Inr (w, f\<lparr>rd := rest\<rparr>)"
  by (simp add: read_u32_def read_word_def unwire_wire)

lemma read_u64_wire:
  "rd f = wire (readSwap f) 8 w @ rest \<Longrightarrow> read_u64 f = Inr (w, f\<lparr>rd := rest\<rparr>)"
  by (simp add: read_u64_def read_word_def unwire_wire)

lemma read_controlPoints_layout:
  "rd f = concat (map (\<lambda>c. wire (readSwap f) 4 (scale c) @ wire (readSwap f) 4 (offset c)) cps) @ rest
   \<Longrightarrow> read_controlPoints (length cps) f = Inr (cps, f\<lparr>rd := rest\<rparr>)"
proof (induction cps arbitrary: f)
  case Nil
  then show ?case by simp
next
  case (Cons c cps)
  let ?sw = "readSwap f"
  let ?tail = "concat (map (\<lambda>c. wire ?sw 4 (scale c) @ wire ?sw 4 (offset c)) cps) @ rest"
  have r1: "read_u32 f = Inr (scale c, f\<lparr>rd := wire ?sw 4 (offset c) @ ?tail\<rparr>)"
    using Cons.prems by (intro read_u32_wire) simp
  have r2: "read_u32 (f\<lparr>rd := wire ?sw 4 (offset c) @ ?tail\<rparr>) = Inr (offset c, f\<lparr>rd := ?tail\<rparr>)"
    using read_u32_wire [of "f\<lparr>rd := wire ?sw 4 (offset c) @ ?tail\<rparr>" "offset c" ?tail] by simp
  have r3: "read_controlPoints (length cps) (f\<lparr>rd := ?tail\<rparr>) = Inr (cps, f\<lparr>rd := rest\<rparr>)"
    using Cons.IH [of "f\<lparr>rd := ?tail\<rparr>"] by simp
  show ?case by (simp add: r1 r2 r3 bindE_def)
qed

lemma wr_write_u32 [simp]: "wr (write_u32 w f) = wr f @ wire (writeSwap f) 4 w"
  by (simp add: write_u32_def write_word_def)

lemma writeSwap_write_u32 [simp]: "writeSwap (write_u32 w f) = writeSwap f"
  by (simp add: write_u32_def write_word_def)

lemma write_loop_layout:
  "wr (fold (\<lambda>i g. write_u32 (offset (cps ! i)) (write_u32 (scale (cps ! i)) g)) [0..<n] f)
   = wr f @ concat (map (\<lambda>i. wire (writeSwap f) 4 (scale (cps ! i)) @ wire (writeSwap f) 4 (offset (cps ! i))) [0..<n])
   \<and> writeSwap (fold (\<lambda>i g. write_u32 (offset (cps ! i)) (write_u32 (scale (cps ! i)) g)) [0..<n] f) = writeSwap f"
  by (induction n) simp_all

lemma DepthCorrection_write_layout:
  assumes "DepthCorrection_inv dc"
  shows "wr (DepthCorrection_write dc f) = wr f @ spec_DepthCorrection_layout (writeSwap f) dc"
proof -
  have "map (\<lambda>i. wire (writeSwap f) 4 (scale (controlPoints dc ! i)) @ wire (writeSwap f) 4 (offset (controlPoints dc ! i))) [0..<length (controlPoints dc)]
        = map (\<lambda>c. wire (writeSwap f) 4 (scale c) @ wire (writeSwap f) 4 (offset c)) (controlPoints dc)"
    by (rule nth_equalityI) simp_all
  with assms show ?thesis
    by (simp add: DepthCorrection_write_def Let_def write_loop_layout spec_DepthCorrection_layout_def
        DepthCorrection_inv_def)
qed

lemma DepthCorrection_read_layout:
  assumes "DepthCorrection_inv dc"
    and "rd g = spec_DepthCorrection_layout (readSwap g) dc @ rest"
  shows "DepthCorrection_read g = Inr (dc, g\<lparr>rd := rest\<rparr>)"
proof -
  let ?sw = "readSwap g"
  let ?body = "concat (map (\<lambda>c. wire ?sw 4 (scale c) @ wire ?sw 4 (offset c)) (controlPoints dc)) @ rest"
  let ?g1 = "g\<lparr>rd := wire ?sw 4 (fst (numSegments dc)) @ wire ?sw 4 (snd (numSegments dc)) @ ?body\<rparr>"
  let ?g2 = "g\<lparr>rd := wire ?sw 4 (snd (numSegments dc)) @ ?body\<rparr>"
  let ?g3 = "g\<lparr>rd := ?body\<rparr>"
  have r1: "read_u32 g = Inr (degree dc, ?g1)"
    using assms(2) by (intro read_u32_wire) (simp add: spec_DepthCorrection_layout_def)
  have r2: "read_u32 ?g1 = Inr (fst (numSegments dc), ?g2)"
    using read_u32_wire [of ?g1 "fst (numSegments dc)"] by simp
  have r3: "read_u32 ?g2 = Inr (snd (numSegments dc), ?g3)"
    using read_u32_wire [of ?g2 "snd (numSegments dc)"] by simp
  have r4: "read_controlPoints (unat (numControlPoints (degree dc) (numSegments dc))) ?g3
            = Inr (controlPoints dc, g\<lparr>rd := rest\<rparr>)"
    using read_controlPoints_layout [of ?g3 "controlPoints dc" rest] assms(1)
    by (simp add: DepthCorrection_inv_def)
  show ?thesis
    by (simp add: DepthCorrection_read_def r1 r2 r3 r4 bindE_def)
qed


text \<open>
  Claim C7.  For every depth correction object, \<^verbatim>\<open>write\<close> emits exactly the degree, the
  two segment counts and then the control points as pairs of scale and offset in array
  (row-major) order, each as four bytes; the number of pairs is the object's control point
  count \<^verbatim>\<open>(numSegments[1]+degree)*(numSegments[0]+degree)\<close>.  Reading these bytes back
  with the file constructor gives an object with the same degree, segment counts and
  control points, and leaves the rest of the file unread; writing that object again
  produces the same bytes.
\<close>

theorem DepthCorrection_write_read_roundtrip:
  assumes "DepthCorrection_inv dc" and "readSwap g = writeSwap f"
    and "rd g = drop (length (wr f)) (wr (DepthCorrection_write dc f)) @ rest"
  shows "wr (DepthCorrection_write dc f) = wr f @ spec_DepthCorrection_layout (writeSwap f) dc
    \<and> DepthCorrection_read g = Inr (dc, g\<lparr>rd := rest\<rparr>)
    \<and> (\<forall>dc' g'. DepthCorrection_read g = Inr (dc', g') \<longrightarrow>
          degree dc' = degree dc \<and> numSegments dc' = numSegments dc
          \<and> controlPoints dc' = controlPoints dc
          \<and> DepthCorrection_write dc' f = DepthCorrection_write dc f)"
proof -
  have w: "wr (DepthCorrection_write dc f) = wr f @ spec_DepthCorrection_layout (writeSwap f) dc"
    using assms(1) by (rule DepthCorrection_write_layout)
  have "rd g = spec_DepthCorrection_layout (readSwap g) dc @ rest"
    using assms(2,3) by (simp add: w)
  then have r: "DepthCorrection_read g = Inr (dc, g\<lparr>rd := rest\<rparr>)"
    using assms(1) by (rule DepthCorrection_read_layout [rotated])
  show ?thesis using w r by simp
qed



theorem DepthCorrection_write_read_roundtrip_witness:
  "DepthCorrection_inv dc_example
   \<and> DepthCorrection_read (empty_file\<lparr>rd := wr (DepthCorrection_write dc_example empty_file) @ [7]\<rparr>)
       = Inr (dc_example, empty_file\<lparr>rd := [7]\<rparr>)
   \<and> take 16 (wr (DepthCorrection_write dc_example empty_file))
       = [1, 0, 0, 0, 1, 0, 0, 0, 1, 0, 0, 0, 0, 0, 0x80, 0x3F]"
proof -
  have inv: "DepthCorrection_inv dc_example"
    by (simp add: DepthCorrection_inv_def dc_example_def numControlPoints_def)
  have b: "take 16 (spec_DepthCorrection_layout False dc_example)
           = [1, 0, 0, 0, 1, 0, 0, 0, 1, 0, 0, 0, 0, 0, 0x80, 0x3F]"
    by (simp add: spec_DepthCorrection_layout_def dc_example_def wire_def le_bytes_def upt_rec
        drop_bit_eq_div)
  let ?g = "empty_file\<lparr>rd := wr (DepthCorrection_write dc_example empty_file) @ [7]\<rparr>"
  have h2: "readSwap ?g = writeSwap empty_file"
    by (simp add: empty_file_def)
  have h3: "rd ?g = drop (length (wr empty_file)) (wr (DepthCorrection_write dc_example empty_file)) @ [7]"
    by (simp add: empty_file_def)
  have w: "wr (DepthCorrection_write dc_example empty_file)
           = wr empty_file @ spec_DepthCorrection_layout (writeSwap empty_file) dc_example"
    and r: "DepthCorrection_read ?g = Inr (dc_example, ?g\<lparr>rd := [7]\<rparr>)"
    using DepthCorrection_write_read_roundtrip [OF inv h2 h3] by blast+
  have t: "take 16 (wr (DepthCorrection_write dc_example empty_file))
           = [1, 0, 0, 0, 1, 0, 0, 0, 1, 0, 0, 0, 0, 0, 0x80, 0x3F]"
    unfolding w using b by (simp add: empty_file_def)
  show ?thesis
    using inv r t by simp
qed

subsection \<open>Lens distortion parameters\<close>

lemma wr_write_u64 [simp]: "wr (write_u64 w f) = wr f @ wire (writeSwap f) 8 w"
  by (simp add: write_u64_def write_word_def)

lemma writeSwap_write_u64 [simp]: "writeSwap (write_u64 w f) = writeSwap f"
  by (simp add: write_u64_def write_word_def)

lemma read_f64s_layout_aux:
  "rd f = f64s_bytes (readSwap f) vs @ rest \<Longrightarrow> read_f64s (length vs) f = Inr (vs, f\<lparr>rd := rest\<rparr>)"
proof (induction vs arbitrary: f)
  case Nil
  then show ?case by (simp add: f64s_bytes_def)
next
  case (Cons v vs)
  let ?f1 = "f\<lparr>rd := f64s_bytes (readSwap f) vs @ rest\<rparr>"
  have r1: "read_u64 f = Inr (v, ?f1)"
    using Cons.prems by (intro read_u64_wire) (simp add: f64s_bytes_def)
  have r2: "read_f64s (length vs) ?f1 = Inr (vs, f\<lparr>rd := rest\<rparr>)"
    using Cons.IH [of ?f1] by simp
  show ?case by (simp add: r1 r2 bindE_def)
qed

lemma read_f64s_layout:
  "rd f = f64s_bytes (readSwap f) vs @ rest \<Longrightarrow> n = length vs \<Longrightarrow> g = f\<lparr>rd := rest\<rparr>
   \<Longrightarrow> read_f64s n f = Inr (vs, g)"
  using read_f64s_layout_aux by simp

lemma f64s_bytes_append: "f64s_bytes sw (xs @ ys) = f64s_bytes sw xs @ f64s_bytes sw ys"
  by (simp add: f64s_bytes_def)

lemma length_f64s_bytes [simp]: "length (f64s_bytes sw vs) = 8 * length vs"
  by (induction vs) (simp_all add: f64s_bytes_def)

lemma write_f64_loop:
  "wr (fold (\<lambda>i g. write_u64 (pv ! i) g) [0..<n] f) = wr f @ f64s_bytes (writeSwap f) (map (\<lambda>i. pv ! i) [0..<n])
   \<and> writeSwap (fold (\<lambda>i g. write_u64 (pv ! i) g) [0..<n] f) = writeSwap f"
  by (induction n) (simp_all add: f64s_bytes_def)


lemma list10:
  "length vs = 10 \<Longrightarrow> vs = [vs!0, vs!1, vs!2, vs!3, vs!4, vs!5, vs!6, vs!7, vs!8, vs!9]"
  by (rule nth_equalityI) (auto simp: less_Suc_eq numeral_eq_Suc nth_Cons')

lemma list7:
  "length vs = 7 \<Longrightarrow> vs = [vs!0, vs!1, vs!2, vs!3, vs!4, vs!5, vs!6]"
  by (rule nth_equalityI) (auto simp: less_Suc_eq numeral_eq_Suc nth_Cons')

lemma readLensDistortion_new_explicit:
  assumes "rd f = f64s_bytes (readSwap f) [v0, v1, v2, v3, v4, v5, v6, v7, v8, v9] @ rest"
  shows "readLensDistortion f True
         = Inr (setParameterVector [v0, v1, v2, v3, v4, v5, v6, v7, v8, v9], f\<lparr>rd := rest\<rparr>)"
proof -
  let ?sw = "readSwap f"
  let ?f1 = "f\<lparr>rd := f64s_bytes ?sw [v2, v3, v4, v5, v6, v7, v8, v9] @ rest\<rparr>"
  let ?f2 = "f\<lparr>rd := f64s_bytes ?sw [v5, v6, v7, v8, v9] @ rest\<rparr>"
  let ?f3 = "f\<lparr>rd := f64s_bytes ?sw [v8, v9] @ rest\<rparr>"
  have r1: "read_f64s 2 f = Inr ([v0, v1], ?f1)"
    by (rule read_f64s_layout [where rest = "rd ?f1"]) (simp_all add: f64s_bytes_def assms)
  have r2: "read_f64s 3 ?f1 = Inr ([v2, v3, v4], ?f2)"
    by (rule read_f64s_layout [where rest = "rd ?f2"]) (simp_all add: f64s_bytes_def)
  have r3: "read_f64s 3 ?f2 = Inr ([v5, v6, v7], ?f3)"
    by (rule read_f64s_layout [where rest = "rd ?f3"]) (simp_all add: f64s_bytes_def)
  have r4: "read_f64s 2 ?f3 = Inr ([v8, v9], f\<lparr>rd := rest\<rparr>)"
    by (rule read_f64s_layout [where rest = "rest"]) (simp_all add: f64s_bytes_def)
  show ?thesis
    by (simp add: readLensDistortion_def r1 r2 r3 r4 bindE_def)
qed

lemma readLensDistortion_old_explicit:
  assumes "rd f = f64s_bytes (readSwap f) [v0, v1, v2, v3, v4, v8, v9] @ rest"
  shows "readLensDistortion f False
         = Inr (setParameterVector [v0, v1, v2, v3, v4, 0, 0, 0, v8, v9], f\<lparr>rd := rest\<rparr>)"
proof -
  let ?sw = "readSwap f"
  let ?f1 = "f\<lparr>rd := f64s_bytes ?sw [v2, v3, v4, v8, v9] @ rest\<rparr>"
  let ?f2 = "f\<lparr>rd := f64s_bytes ?sw [v8, v9] @ rest\<rparr>"
  have r1: "read_f64s 2 f = Inr ([v0, v1], ?f1)"
    by (rule read_f64s_layout [where rest = "rd ?f1"]) (simp_all add: f64s_bytes_def assms)
  have r2: "read_f64s 3 ?f1 = Inr ([v2, v3, v4], ?f2)"
    by (rule read_f64s_layout [where rest = "rd ?f2"]) (simp_all add: f64s_bytes_def)
  have r4: "read_f64s 2 ?f2 = Inr ([v8, v9], f\<lparr>rd := rest\<rparr>)"
    by (rule read_f64s_layout [where rest = "rest"]) (simp_all add: f64s_bytes_def)
  have rep: "replicate 3 (0 :: u64) = [0, 0, 0]"
    by (simp add: numeral_3_eq_3)
  show ?thesis
    by (simp add: readLensDistortion_def r1 r2 r4 bindE_def rep)
qed

lemma writeLensDistortion_layout:
  "wr (writeLensDistortion ld f) = wr f @ f64s_bytes (writeSwap f) (getParameterVector ld)"
proof -
  have "map (\<lambda>i. getParameterVector ld ! i) [0..<10] = getParameterVector ld"
    by (rule nth_equalityI) (simp_all add: getParameterVector_def)
  then show ?thesis
    by (simp add: writeLensDistortion_def Let_def write_f64_loop)
qed


text \<open>
  Claim C8.  With the newer-format flag \<^verbatim>\<open>readLensDistortion\<close> consumes exactly ten
  \<^verbatim>\<open>Float64\<close> values, in the order \<open>cx, cy, kappa0..kappa5, rho0, rho1\<close>; with the
  legacy flag it consumes exactly seven (\<open>cx, cy, kappa0..kappa2, rho0, rho1\<close>) and sets
  \<open>kappa3\<close>, \<open>kappa4\<close>, \<open>kappa5\<close> to zero; \<^verbatim>\<open>writeLensDistortion\<close> always writes all
  ten parameters in the newer order.  Without byte swapping on a little-endian host the
  values are little-endian.
\<close>

theorem lens_distortion_formats:
  "(length vs = 10 \<and> rd f = f64s_bytes (readSwap f) vs @ rest \<longrightarrow>
      readLensDistortion f True = Inr (setParameterVector vs, f\<lparr>rd := rest\<rparr>)
      \<and> getParameterVector (setParameterVector vs) = vs)
   \<and> (length ws = 7 \<and> rd f' = f64s_bytes (readSwap f') ws @ rest' \<longrightarrow>
      (\<exists>ld. readLensDistortion f' False = Inr (ld, f'\<lparr>rd := rest'\<rparr>)
         \<and> getParameterVector ld = take 5 ws @ [0, 0, 0] @ drop 5 ws
         \<and> kappa3 ld = 0 \<and> kappa4 ld = 0 \<and> kappa5 ld = 0))
   \<and> wr (writeLensDistortion ld0 g) = wr g @ f64s_bytes (writeSwap g)
        [cx ld0, cy ld0, kappa0 ld0, kappa1 ld0, kappa2 ld0, kappa3 ld0, kappa4 ld0, kappa5 ld0,
         rho0 ld0, rho1 ld0]"
proof (intro conjI impI)
  assume a: "length vs = 10 \<and> rd f = f64s_bytes (readSwap f) vs @ rest"
  then have e: "vs = [vs!0, vs!1, vs!2, vs!3, vs!4, vs!5, vs!6, vs!7, vs!8, vs!9]"
    using list10 by blast
  show "readLensDistortion f True = Inr (setParameterVector vs, f\<lparr>rd := rest\<rparr>)"
    using a readLensDistortion_new_explicit [of f "vs!0" "vs!1" "vs!2" "vs!3" "vs!4" "vs!5" "vs!6" "vs!7" "vs!8" "vs!9" rest]
      e by simp
  show "getParameterVector (setParameterVector vs) = vs"
    by (subst (2) e) (simp add: getParameterVector_def setParameterVector_def)
next
  assume a: "length ws = 7 \<and> rd f' = f64s_bytes (readSwap f') ws @ rest'"
  then have e: "ws = [ws!0, ws!1, ws!2, ws!3, ws!4, ws!5, ws!6]"
    using list7 by blast
  have r: "readLensDistortion f' False
     = Inr (setParameterVector [ws!0, ws!1, ws!2, ws!3, ws!4, 0, 0, 0, ws!5, ws!6], f'\<lparr>rd := rest'\<rparr>)"
    using a readLensDistortion_old_explicit [of f' "ws!0" "ws!1" "ws!2" "ws!3" "ws!4" "ws!5" "ws!6" rest']
      e by simp
  have t: "take 5 ws @ [0, 0, 0] @ drop 5 ws = [ws!0, ws!1, ws!2, ws!3, ws!4, 0, 0, 0, ws!5, ws!6]"
    by (subst e, subst (2) e) simp
  show "\<exists>ld. readLensDistortion f' False = Inr (ld, f'\<lparr>rd := rest'\<rparr>)
         \<and> getParameterVector ld = take 5 ws @ [0, 0, 0] @ drop 5 ws
         \<and> kappa3 ld = 0 \<and> kappa4 ld = 0 \<and> kappa5 ld = 0"
    unfolding r t by (simp add: getParameterVector_def setParameterVector_def)
next
  show "wr (writeLensDistortion ld0 g) = wr g @ f64s_bytes (writeSwap g)
        [cx ld0, cy ld0, kappa0 ld0, kappa1 ld0, kappa2 ld0, kappa3 ld0, kappa4 ld0, kappa5 ld0,
         rho0 ld0, rho1 ld0]"
    by (simp add: writeLensDistortion_layout getParameterVector_def)
qed


theorem lens_distortion_formats_witness:
  "readLensDistortion (empty_file\<lparr>rd := f64s_bytes False [1, 2, 3, 4, 5, 6, 7, 8, 9, 10] @ [255]\<rparr>) True
     = Inr (ld_example, empty_file\<lparr>rd := [255]\<rparr>)
   \<and> (\<exists>ld. readLensDistortion (empty_file\<lparr>rd := f64s_bytes False [1, 2, 3, 4, 5, 9, 10] @ [255]\<rparr>) False
           = Inr (ld, empty_file\<lparr>rd := [255]\<rparr>)
         \<and> getParameterVector ld = [1, 2, 3, 4, 5, 0, 0, 0, 9, 10]
         \<and> kappa3 ld = 0 \<and> kappa4 ld = 0 \<and> kappa5 ld = 0)"
  using lens_distortion_formats
     [of "[1, 2, 3, 4, 5, 6, 7, 8, 9, 10]"
         "empty_file\<lparr>rd := f64s_bytes False [1, 2, 3, 4, 5, 6, 7, 8, 9, 10] @ [255]\<rparr>" "[255]"
         "[1, 2, 3, 4, 5, 9, 10]"
         "empty_file\<lparr>rd := f64s_bytes False [1, 2, 3, 4, 5, 9, 10] @ [255]\<rparr>" "[255]"]
  by (simp add: empty_file_def ld_example_def)


subsection \<open>Multiplexed source handshake\<close>

lemma handshake_writes:
  "wr (fst (MultiplexedFrameSource_handshake p))
     = wr p @ wire (writeSwap p) 4 (0x12345678 :: u32) @ wire (writeSwap p) 4 (1 :: u32)"
  by (simp add: MultiplexedFrameSource_handshake_def Let_def read_u32_def read_u64_def read_word_def
      split: sum.splits prod.splits)

lemma handshake_error_iff:
  "4 \<le> length (rd p) \<Longrightarrow>
   (snd (MultiplexedFrameSource_handshake p) = Inl UnrecognizedEndianness)
     = (marker p \<noteq> 0x12345678 \<and> marker p \<noteq> 0x78563412)"
  by (auto simp add: MultiplexedFrameSource_handshake_def Let_def read_u32_def read_u64_def read_word_def
      write_u32_def write_word_def marker_def split: sum.splits prod.splits)

lemma handshake_swap:
  "4 \<le> length (rd p) \<Longrightarrow>
   readSwap (fst (MultiplexedFrameSource_handshake p)) = (marker p = 0x78563412 \<or> readSwap p)"
  by (auto simp add: MultiplexedFrameSource_handshake_def Let_def read_u32_def read_u64_def read_word_def
      write_u32_def write_word_def marker_def split: sum.splits prod.splits)

lemma handshake_success:
  "20 \<le> length (rd p) \<Longrightarrow> marker p = 0x12345678 \<or> marker p = 0x78563412 \<Longrightarrow>
   sw = (marker p = 0x78563412 \<or> readSwap p) \<Longrightarrow>
   snd (MultiplexedFrameSource_handshake p)
     = Inr \<lparr>serverProtocolVersion = unwire sw (take 4 (drop 4 (rd p))),
            timeStampOffset = unwire sw (take 8 (drop 8 (rd p))),
            numStreams = unwire sw (take 4 (drop 16 (rd p)))\<rparr>
   \<and> rd (fst (MultiplexedFrameSource_handshake p)) = drop 20 (rd p)"
  by (auto simp add: MultiplexedFrameSource_handshake_def Let_def read_u32_def read_u64_def read_word_def
      write_u32_def write_word_def marker_def)


text \<open>
  Claim C9.  The constructor first writes the 32-bit endianness marker \<open>0x12345678\<close> and
  then the 32-bit client protocol version \<open>1\<close>.  It then turns byte swapping on reads on
  exactly when the server's marker reads as \<open>0x78563412\<close>, and raises the endianness error
  exactly when the marker is neither \<open>0x12345678\<close> nor \<open>0x78563412\<close> (a pipe that ends
  before the marker raises a read error instead).  After a successful handshake it reads
  the server's protocol version, the 64-bit time stamp offset and the 32-bit number of
  sub-streams, in this order and with the byte order just chosen.
\<close>

theorem handshake_protocol:
  "wr (fst (MultiplexedFrameSource_handshake p))
     = wr p @ wire (writeSwap p) 4 (0x12345678 :: u32) @ wire (writeSwap p) 4 (1 :: u32)
   \<and> (length (rd p) < 4 \<longrightarrow> snd (MultiplexedFrameSource_handshake p) = Inl ReadError)
   \<and> (4 \<le> length (rd p) \<longrightarrow>
        readSwap (fst (MultiplexedFrameSource_handshake p)) = (marker p = 0x78563412 \<or> readSwap p)
        \<and> ((snd (MultiplexedFrameSource_handshake p) = Inl UnrecognizedEndianness)
             = (marker p \<noteq> 0x12345678 \<and> marker p \<noteq> 0x78563412)))
   \<and> (20 \<le> length (rd p) \<and> (marker p = 0x12345678 \<or> marker p = 0x78563412) \<longrightarrow>
        snd (MultiplexedFrameSource_handshake p)
          = Inr \<lparr>serverProtocolVersion =
                   unwire (marker p = 0x78563412 \<or> readSwap p) (take 4 (drop 4 (rd p))),
                 timeStampOffset =
                   unwire (marker p = 0x78563412 \<or> readSwap p) (take 8 (drop 8 (rd p))),
                 numStreams =
                   unwire (marker p = 0x78563412 \<or> readSwap p) (take 4 (drop 16 (rd p)))\<rparr>
        \<and> rd (fst (MultiplexedFrameSource_handshake p)) = drop 20 (rd p))"
proof (intro conjI impI)
  show "wr (fst (MultiplexedFrameSource_handshake p))
     = wr p @ wire (writeSwap p) 4 (0x12345678 :: u32) @ wire (writeSwap p) 4 (1 :: u32)"
    by (rule handshake_writes)
next
  assume "length (rd p) < 4"
  then show "snd (MultiplexedFrameSource_handshake p) = Inl ReadError"
    by (simp add: MultiplexedFrameSource_handshake_def Let_def read_u32_def read_word_def
        write_u32_def write_word_def)
next
  assume "4 \<le> length (rd p)"
  then show "readSwap (fst (MultiplexedFrameSource_handshake p)) = (marker p = 0x78563412 \<or> readSwap p)"
    by (rule handshake_swap)
next
  assume "4 \<le> length (rd p)"
  then show "(snd (MultiplexedFrameSource_handshake p) = Inl UnrecognizedEndianness)
             = (marker p \<noteq> 0x12345678 \<and> marker p \<noteq> 0x78563412)"
    by (rule handshake_error_iff)
next
  assume a: "20 \<le> length (rd p) \<and> (marker p = 0x12345678 \<or> marker p = 0x78563412)"
  then show "snd (MultiplexedFrameSource_handshake p)
          = Inr \<lparr>serverProtocolVersion =
                   unwire (marker p = 0x78563412 \<or> readSwap p) (take 4 (drop 4 (rd p))),
                 timeStampOffset =
                   unwire (marker p = 0x78563412 \<or> readSwap p) (take 8 (drop 8 (rd p))),
                 numStreams =
                   unwire (marker p = 0x78563412 \<or> readSwap p) (take 4 (drop 16 (rd p)))\<rparr>"
    using handshake_success [of p "marker p = 0x78563412 \<or> readSwap p"] by blast
  from a show "rd (fst (MultiplexedFrameSource_handshake p)) = drop 20 (rd p)"
    using handshake_success [of p "marker p = 0x78563412 \<or> readSwap p"] by blast
qed

lemma marker_big_endian_server: "marker (empty_file\<lparr>rd := big_endian_server\<rparr>) = 0x78563412"
  by (simp add: marker_def empty_file_def big_endian_server_def unwire_def le_word_def)

theorem handshake_protocol_witness:
  "wr (fst (MultiplexedFrameSource_handshake (empty_file\<lparr>rd := big_endian_server\<rparr>)))
     = [0x78, 0x56, 0x34, 0x12, 1, 0, 0, 0]
   \<and> readSwap (fst (MultiplexedFrameSource_handshake (empty_file\<lparr>rd := big_endian_server\<rparr>)))
   \<and> snd (MultiplexedFrameSource_handshake (empty_file\<lparr>rd := big_endian_server\<rparr>))
       = Inr \<lparr>serverProtocolVersion = 1, timeStampOffset = 0x3FF0000000000000, numStreams = 2\<rparr>
   \<and> rd (fst (MultiplexedFrameSource_handshake (empty_file\<lparr>rd := big_endian_server\<rparr>))) = [0xAA]
   \<and> snd (MultiplexedFrameSource_handshake (empty_file\<lparr>rd := [1, 2, 3, 4]\<rparr>))
       = Inl UnrecognizedEndianness
   \<and> snd (MultiplexedFrameSource_handshake (empty_file\<lparr>rd := [1, 2, 3]\<rparr>)) = Inl ReadError"
proof -
  have w: "wire False 4 (0x12345678 :: u32) @ wire False 4 (1 :: u32) = [0x78, 0x56, 0x34, 0x12, 1, 0, 0, 0]"
    by (simp add: wire_def le_bytes_def upt_rec drop_bit_eq_div)
  have m2: "marker (empty_file\<lparr>rd := [1, 2, 3, 4]\<rparr>) = 0x04030201"
    by (simp add: marker_def empty_file_def unwire_def le_word_def)
  have d: "unwire True (take 4 (drop 4 big_endian_server)) = (1 :: u32)"
     "unwire True (take 8 (drop 8 big_endian_server)) = (0x3FF0000000000000 :: u64)"
     "unwire True (take 4 (drop 16 big_endian_server)) = (2 :: u32)"
     "drop 20 big_endian_server = [0xAA]"
    by (simp_all add: big_endian_server_def unwire_def le_word_def)
  have l: "length big_endian_server = 21"
    by (simp add: big_endian_server_def)
  show ?thesis
    using handshake_protocol [of "empty_file\<lparr>rd := big_endian_server\<rparr>"]
          handshake_protocol [of "empty_file\<lparr>rd := [1, 2, 3, 4]\<rparr>"]
          handshake_protocol [of "empty_file\<lparr>rd := [1, 2, 3]\<rparr>"]
    by (simp add: marker_big_endian_server m2 d l w) (simp add: empty_file_def w)
qed


subsection \<open>Background capture and removal\<close>

text \<open>
  For frames whose raw depths are all at least 2 the capture loop computes the running
  minimum of \<open>raw - 2\<close>, and removal invalidates exactly the pixels at or beyond the
  background.
\<close>

lemma capture_pixel_min:
  "2 \<le> uint df \<Longrightarrow> capture_pixel bf df = min bf (df - 2)"
  by (simp add: capture_pixel_def min_def word_le_def uint_sub_if_size word_size)

lemma capture_fold_min:
  "\<forall>df \<in> set dfs. 2 \<le> uint df \<Longrightarrow>
   fold (\<lambda>df bf. capture_pixel bf df) dfs bf0 = fold (\<lambda>df bf. min bf (df - 2)) dfs bf0"
  by (induction dfs arbitrary: bf0) (simp_all add: capture_pixel_min)

lemma remove_pixel_iff:
  "remove_pixel bf df = (if bf \<le> df then invalidDepth else df)"
  by (simp add: remove_pixel_def word_le_def)


text \<open>
  Claim C6.  During background capture each background pixel should end up as the
  minimum, over the captured frames, of the raw depth minus 2, starting from
  \<open>invalidDepth\<close>; afterwards a frame pixel is replaced by \<open>invalidDepth\<close> exactly
  when it is at least the background value.  The capture loop does not compute this
  minimum for raw depths 0 and 1: a captured raw depth of 0 stores \<open>0xFFFE\<close> and a raw
  depth of 1 stores \<open>0xFFFF\<close>, whatever was captured before, and with such a background
  value no pixel is removed any more.  A raw depth of 2 stores 0 as intended.
\<close>

theorem background_capture_wraps_below_two:
  "backgroundFrame (fst (process_frames (initial_state 1) [[5], [0]])) = [0xFFFE]
   \<and> backgroundFrame (fst (process_frames (initial_state 1) [[5], [1]])) = [0xFFFF]
   \<and> backgroundFrame (fst (process_frames (initial_state 1) [[5], [2]])) = [0]
   \<and> snd (process_frame \<lparr>backgroundFrame = [0xFFFE], numCaptureFrames = 0\<rparr> [1000]) = [1000]
   \<and> snd (process_frame \<lparr>backgroundFrame = [3], numCaptureFrames = 0\<rparr> [1000]) = [invalidDepth]"
  by (simp add: process_frame_def initial_state_def capture_pixel_def remove_pixel_def invalidDepth_def)


subsection \<open>Depth correction of degree 0\<close>






















subsection \<open>Scratch arrays of the two B-spline evaluators\<close>

text \<open>The single-pixel path stays inside \<^verbatim>\<open>bsTemp[21]\<close> for every degree up to 20.\<close>

lemma bindE_total:
  "\<exists>a. m = Inr a \<Longrightarrow> (\<And>a. \<exists>b. k a = Inr b) \<Longrightarrow> \<exists>b. bindE m k = Inr b"
  by (auto simp: bindE_def)

lemma foldE_total:
  assumes "\<And>x s. x \<in> set xs \<Longrightarrow> \<exists>s'. f x s = Inr s'"
  shows "\<exists>s'. foldE f xs s = Inr s'"
  using assms
proof (induction xs arbitrary: s)
  case Nil
  then show ?case by simp
next
  case (Cons x xs)
  then obtain s1 where "f x s = Inr s1"
    by (meson list.set_intros(1))
  moreover have "\<exists>s'. foldE f xs s1 = Inr s'"
    using Cons by simp
  ultimately show ?case
    by (simp add: bindE_def)
qed

lemma bs_in_bounds: "n \<le> 20 \<Longrightarrow> \<exists>v. bs i n x = Inr v"
  unfolding bs_def
  apply (cases "x < real_of_int i \<or> real_of_int (i + n + 1) \<le> x")
   apply simp
  apply (simp only: if_False)
  apply (intro bindE_total foldE_total)
      apply (auto simp: store1_def load1_def)
  done


text \<open>
  Claim C5.  For degrees in \<open>[0, 20]\<close> both evaluation paths should stay inside their
  scratch arrays and control point arrays and agree.  The dense-table evaluator declares
  its scratch array as \<^verbatim>\<open>bsTemp[16][16]\<close> and fills rows and columns \<open>0..degree\<close>: for
  degree 16, one segment in each direction (17 \<times> 17 control points) and a 1 \<times> 1 frame, it
  writes \<^verbatim>\<open>bsTemp[0][16]\<close>, outside the array.
\<close>

theorem dense_table_degree16_overflows_scratch:
  "getPixelCorrection_table (DepthCorrection_ctor 16 (1, 1)) (1, 1) = Inl OutOfBounds"
  by (simp add: getPixelCorrection_table_def table_row_def bspline_def splinePos_def
      DepthCorrection_ctor_def numControlPoints_def bindE_def load_def store2_def upt_rec)



subsection \<open>Projection of world points into depth image space\<close>




















subsection \<open>Metaframe dispatch of the multiplexed source\<close>






























subsection \<open>Tie point calibration\<close>

lemma inner_fold:
  "fold (\<lambda>j a. a((i, j) := a (i, j) + g j)) [0..<n] a
   = (\<lambda>(i', j'). if i' = i \<and> j' < n then a (i', j') + g j' else a (i', j'))"
proof (induction n)
  case 0
  then show ?case by auto
next
  case (Suc n)
  show ?case
    apply (simp only: upt_Suc_append [OF le0] fold_append fold_simps comp_apply Suc)
    apply (auto simp: fun_eq_iff less_Suc_eq)
    done
qed

lemma outer_fold:
  "fold (\<lambda>i a. fold (\<lambda>j a. a((i, j) := a (i, j) + g i j)) [0..<n] a) [0..<m] a
   = (\<lambda>(i', j'). if i' < m \<and> j' < n then a (i', j') + g i' j' else a (i', j'))"
proof (induction m)
  case 0
  then show ?case by auto
next
  case (Suc m)
  show ?case
    apply (simp only: upt_Suc_append [OF le0] fold_append fold_simps comp_apply Suc)
    apply (simp only: inner_fold)
    apply (auto simp: fun_eq_iff less_Suc_eq)
    done
qed

lemma add_equation_closed:
  "add_equation eq a = (\<lambda>(i, j). if i < 12 \<and> j < 12 then a (i, j) + eq ! i * eq ! j else a (i, j))"
  unfolding add_equation_def by (rule outer_fold)

lemma equations_spec:
  "i < 12 \<Longrightarrow> fst (equations fsize tp) ! i = spec_row_u fsize tp i"
  "i < 12 \<Longrightarrow> snd (equations fsize tp) ! i = spec_row_v fsize tp i"
  by (simp_all add: equations_def spec_row_u_def spec_row_v_def Let_def split: prod.splits)

lemma enter_tie_point_closed:
  assumes "i < 12" "j < 12"
  shows "enter_tie_point fsize tp a (i, j)
         = a (i, j) + (spec_row_u fsize tp i * spec_row_u fsize tp j
                        + spec_row_v fsize tp i * spec_row_v fsize tp j)"
proof -
  obtain eq0 eq1 where e: "equations fsize tp = (eq0, eq1)"
    by (cases "equations fsize tp") auto
  have "eq0 ! i = spec_row_u fsize tp i" "eq1 ! i = spec_row_v fsize tp i"
    "eq0 ! j = spec_row_u fsize tp j" "eq1 ! j = spec_row_v fsize tp j"
    using assms equations_spec [of i fsize tp] equations_spec [of j fsize tp] e by simp_all
  then show ?thesis
    using assms by (simp add: enter_tie_point_def add_equation_closed e)
qed

lemma fold_enter_closed:
  assumes "i < 12" "j < 12"
  shows "fold (enter_tie_point fsize) tps a (i, j)
         = a (i, j) + (\<Sum>tp \<leftarrow> tps. spec_row_u fsize tp i * spec_row_u fsize tp j
                                      + spec_row_v fsize tp i * spec_row_v fsize tp j)"
proof (induction tps arbitrary: a)
  case Nil
  then show ?case by simp
next
  case (Cons tp tps)
  show ?case
    by (simp add: Cons enter_tie_point_closed [OF assms] add.assoc)
qed

lemma linear_system_spec:
  "i < 12 \<Longrightarrow> j < 12 \<Longrightarrow> linear_system fsize tps (i, j) = spec_normal_matrix fsize tps (i, j)"
  by (simp add: linear_system_def spec_normal_matrix_def fold_enter_closed)

lemma min_step_found:
  assumes "min_found e n kv"
  shows "min_found e (Suc n) (min_step e n kv)"
proof (cases "snd kv > \<bar>e n\<bar>")
  case True
  have "\<bar>e n\<bar> \<le> \<bar>e i\<bar>" if "i < Suc n" for i
  proof (cases "i = n")
    case True
    then show ?thesis by simp
  next
    case False
    then have "i < n" using that by simp
    then have "\<bar>e (fst kv)\<bar> \<le> \<bar>e i\<bar>"
      using assms by (simp add: min_found_def)
    then show ?thesis
      using True assms by (simp add: min_found_def)
  qed
  moreover have "\<bar>e n\<bar> < \<bar>e i\<bar>" if "i < n" for i
  proof -
    have "\<bar>e (fst kv)\<bar> \<le> \<bar>e i\<bar>"
      using that assms by (simp add: min_found_def)
    then show ?thesis
      using True assms by (simp add: min_found_def)
  qed
  ultimately show ?thesis
    using True by (cases kv) (simp add: min_step_def min_found_def)
next
  case False
  have "\<bar>e (fst kv)\<bar> \<le> \<bar>e i\<bar>" if "i < Suc n" for i
  proof (cases "i = n")
    case True
    then show ?thesis
      using False assms by (simp add: min_found_def)
  next
    case False
    then have "i < n" using that by simp
    then show ?thesis
      using assms by (simp add: min_found_def)
  qed
  then show ?thesis
    using False assms by (cases kv) (simp add: min_step_def min_found_def)
qed

lemma min_loop:
  "0 < n \<Longrightarrow> min_found e n (fold (min_step e) [1..<n] (0, \<bar>e 0\<bar>))"
proof (induction n)
  case 0
  then show ?case by simp
next
  case (Suc n)
  show ?case
  proof (cases "n = 0")
    case True
    then show ?thesis by (simp add: min_found_def)
  next
    case False
    then have up: "[1..<Suc n] = [1..<n] @ [n]"
      by simp
    show ?thesis
      unfolding up using Suc.IH False by (simp add: min_step_found)
  qed
qed

lemma smallest_eigenvalue_index_spec:
  "smallest_eigenvalue_index e < 12
   \<and> (\<forall>i<12. \<bar>e (smallest_eigenvalue_index e)\<bar> \<le> \<bar>e i\<bar>)
   \<and> (\<forall>i. i < smallest_eigenvalue_index e \<longrightarrow> \<bar>e (smallest_eigenvalue_index e)\<bar> < \<bar>e i\<bar>)"
  using min_loop [of 12 e]
  unfolding smallest_eigenvalue_index_def min_step_def [symmetric] min_found_def
  by simp


lemma color_projection_spec:
  "matrix_product 4 (extend_homography (homography q k)) d = spec_color_projection q k d"
proof (rule ext)
  fix ij :: "nat \<times> nat"
  obtain i j where ij: "ij = (i, j)"
    by (cases ij) auto
  have "(\<Sum>l\<leftarrow>[0..<4]. extend_homography (homography q k) (i, l) * d (l, j))
        = (\<Sum>l\<leftarrow>[0..<4]. (if i = 0 \<or> i = 1 then q (4 * i + l, k) / q (11, k)
                             else if i = 2 then (if l = 2 then 1 else 0)
                             else q (8 + l, k) / q (11, k)) * d (l, j))"
    by (rule arg_cong [where f = sum_list], rule map_cong)
       (auto simp: extend_homography_def homography_def mult.commute)
  then show "matrix_product 4 (extend_homography (homography q k)) d ij = spec_color_projection q k d ij"
    by (simp only: ij matrix_product_def spec_color_projection_def prod.case)
qed


text \<open>
  Claim C1.  For every list of tie point pairs \<open>(P, p)\<close> with \<open>P = (X, Y, Z)\<close>,
  \<open>p = (u, v)\<close> and normalized color coordinates \<open>s = u / W\<close>, \<open>t = v / H\<close>, the solver
  builds the 12 \<times> 12 matrix \<open>A\<close> as the sum over the pairs of \<open>row\<^sup>T row\<close> for the rows
  \<open>(X, Y, Z, 1, 0, 0, 0, 0, -sX, -sY, -sZ, -s)\<close> and \<open>(0, 0, 0, 0, X, Y, Z, 1, -tX, -tY, -tZ, -t)\<close>,
  takes the eigenvector (the column of the eigenvector matrix returned by the Jacobi
  iteration) that belongs to the eigenvalue of smallest magnitude, divides it by its
  element of index 11 to form the 3 \<times> 4 homography \<open>H\<close>, and persists the 4 \<times> 4 matrix
  with rows 0 and 1 of \<open>H\<close>, the row \<open>(0, 0, 1, 0)\<close> and row 2 of \<open>H\<close>, multiplied from
  the right by the depth projection matrix.
\<close>

theorem calibration_solver:
  "(\<forall>i<12. \<forall>j<12. linear_system fsize tiePoints (i, j) = spec_normal_matrix fsize tiePoints (i, j))
   \<and> smallest_eigenvalue_index (snd (jacobiIteration (linear_system fsize tiePoints))) < 12
   \<and> (\<forall>i<12. \<bar>snd (jacobiIteration (linear_system fsize tiePoints))
                   (smallest_eigenvalue_index (snd (jacobiIteration (linear_system fsize tiePoints))))\<bar>
                \<le> \<bar>snd (jacobiIteration (linear_system fsize tiePoints)) i\<bar>)
   \<and> calibrateCameras jacobiIteration fsize depthProjectionM tiePoints
       = row_major 4 4
           (spec_color_projection (fst (jacobiIteration (linear_system fsize tiePoints)))
              (smallest_eigenvalue_index (snd (jacobiIteration (linear_system fsize tiePoints))))
              depthProjectionM)"
proof (intro conjI allI impI)
  fix i j :: nat
  assume "i < 12" "j < 12"
  then show "linear_system fsize tiePoints (i, j) = spec_normal_matrix fsize tiePoints (i, j)"
    by (rule linear_system_spec)
next
  show "smallest_eigenvalue_index (snd (jacobiIteration (linear_system fsize tiePoints))) < 12"
    using smallest_eigenvalue_index_spec by blast
next
  fix i :: nat
  assume "i < 12"
  then show "\<bar>snd (jacobiIteration (linear_system fsize tiePoints))
                   (smallest_eigenvalue_index (snd (jacobiIteration (linear_system fsize tiePoints))))\<bar>
                \<le> \<bar>snd (jacobiIteration (linear_system fsize tiePoints)) i\<bar>"
    using smallest_eigenvalue_index_spec by blast
next
  show "calibrateCameras jacobiIteration fsize depthProjectionM tiePoints
       = row_major 4 4
           (spec_color_projection (fst (jacobiIteration (linear_system fsize tiePoints)))
              (smallest_eigenvalue_index (snd (jacobiIteration (linear_system fsize tiePoints))))
              depthProjectionM)"
    by (simp add: calibrateCameras_def Let_def case_prod_unfold color_projection_spec)
qed

lemma upt_0_4: "[0..<4] = [0, 1, 2, 3 :: nat]"
  by (simp add: upt_rec)

lemma smallest_example: "smallest_eigenvalue_index eigenvalues_example = 11"
  by (simp add: smallest_eigenvalue_index_def eigenvalues_example_def upt_rec)

theorem calibration_solver_witness:
  "linear_system (640, 480) [tie_point_example] (0, 8) = - 6000
   \<and> linear_system (640, 480) [tie_point_example] (11, 11) = 61 / 100
   \<and> calibrateCameras jacobi_example (640, 480) identity_example [tie_point_example]
       = [1 / 12, 1 / 6, 1 / 4, 1 / 3,
          5 / 12, 1 / 2, 7 / 12, 2 / 3,
          0, 0, 1, 0,
          3 / 4, 5 / 6, 11 / 12, 1]"
proof -
  have a: "spec_normal_matrix (640, 480) [tie_point_example] (0, 8) = - 6000"
    "spec_normal_matrix (640, 480) [tie_point_example] (11, 11) = 61 / 100"
    by (simp_all add: spec_normal_matrix_def spec_row_u_def spec_row_v_def tie_point_example_def)
  have c: "row_major 4 4 (spec_color_projection eigenvectors_example 11 identity_example)
           = [1 / 12, 1 / 6, 1 / 4, 1 / 3,
              5 / 12, 1 / 2, 7 / 12, 2 / 3,
              0, 0, 1, 0,
              3 / 4, 5 / 6, 11 / 12, 1]"
    by (simp add: row_major_def spec_color_projection_def identity_example_def upt_0_4
        eigenvectors_example_def)
  show ?thesis
    using calibration_solver [of "(640, 480)" "[tie_point_example]" jacobi_example identity_example]
    by (simp add: a jacobi_example_def smallest_example c)
qed


subsection \<open>FrameBuffer assignment\<close>

text \<open>
  Claim C10.  When target and source of \<^verbatim>\<open>operator=\<close> hold the same payload pointer
  (in particular when both are invalid handles with null payloads) the target keeps its
  size and its time stamp, and the reference counters are untouched; so assigning an
  invalid handle to an invalid handle does not copy the source's time stamp.  When the
  payload pointers differ, size, payload pointer and time stamp are all copied from the
  source.
\<close>

theorem assign_same_payload_keeps_fields:
  "(buffer this = buffer source \<longrightarrow>
      snd (assign h this source) = this \<and> fst (assign h this source) = h)
   \<and> (\<not> isValid this \<and> \<not> isValid source \<longrightarrow>
      timeStamp (snd (assign h this source)) = timeStamp this
      \<and> sizeFB (snd (assign h this source)) = sizeFB this)
   \<and> (buffer this \<noteq> buffer source \<longrightarrow>
      sizeFB (snd (assign h this source)) = sizeFB source
      \<and> buffer (snd (assign h this source)) = buffer source
      \<and> timeStamp (snd (assign h this source)) = timeStamp source)"
  by (simp add: assign_def isValid_def Let_def)

theorem assign_same_payload_keeps_fields_witness:
  "timeStamp (snd (assign Map.empty
       (FrameBuffer_invalid\<lparr>timeStamp := 1\<rparr>) (FrameBuffer_invalid\<lparr>timeStamp := 2\<rparr>))) = 1
   \<and> timeStamp (snd (assign [8 \<mapsto> 1]
       FrameBuffer_invalid \<lparr>sizeFB = (640, 480), buffer = 8, timeStamp = 2\<rparr>)) = 2"
  using assign_same_payload_keeps_fields
          [of "FrameBuffer_invalid\<lparr>timeStamp := 1\<rparr>" "FrameBuffer_invalid\<lparr>timeStamp := 2\<rparr>"
              Map.empty]
        assign_same_payload_keeps_fields
          [of FrameBuffer_invalid "\<lparr>sizeFB = (640, 480), buffer = 8, timeStamp = 2\<rparr>"
              "[8 \<mapsto> 1]"]
  by (simp add: FrameBuffer_invalid_def isValid_def)

end
